theory Spec2Isabelle
  imports Main
begin

section \<open>xbmgmt dump: a shallow embedding of SubCmdDump.cpp\<close>

text \<open>
  The sub-command \<^verbatim>\<open>xbmgmt dump\<close> writes either the flash image or the configuration
  of a device to a file. The three static functions \<^verbatim>\<open>flash_dump\<close>,
  \<^verbatim>\<open>is_supported\<close>, \<^verbatim>\<open>config_dump\<close> and the method
  \<^verbatim>\<open>SubCmdDump::execute\<close> are embedded below as computations over an explicit
  world (the file system and the chronological list of observable events). A C++
  exception is the left summand of the result; the world a computation has reached when
  it throws is kept, as output already printed stays printed.
\<close>

subsection \<open>Exceptions\<close>

datatype errc = Operation_canceled | Other_errc

text \<open>
  The exception classes the source throws and catches. Their declarations
  (core/common/error.h, core/common/query.h) are not part of the sources at hand; the
  class hierarchy is the one of the C++ standard library and of XRT:
  \<^verbatim>\<open>xrt_core::query::exception\<close> derives from \<^verbatim>\<open>std::runtime_error\<close>,
  \<^verbatim>\<open>xrt_core::error\<close> from \<^verbatim>\<open>std::system_error\<close> and so from
  \<^verbatim>\<open>std::runtime_error\<close>, and \<^verbatim>\<open>std::runtime_error\<close> from
  \<^verbatim>\<open>std::exception\<close>.
\<close>

datatype exn =
    Query_exception string
  | Xrt_error errc string
  | Runtime_error string
  | Std_exception string
  | Non_std_exception

fun what :: "exn \<Rightarrow> string" where
  "what (Query_exception s) = s"
| "what (Xrt_error c s) = s"
| "what (Runtime_error s) = s"
| "what (Std_exception s) = s"
| "what Non_std_exception = []"

text \<open>The three catch clauses of the source: which exceptions each of them catches.\<close>

fun is_query_exception :: "exn \<Rightarrow> bool" where
  "is_query_exception (Query_exception s) = True"
| "is_query_exception e = False"

fun is_runtime_error :: "exn \<Rightarrow> bool" where
  "is_runtime_error (Query_exception s) = True"
| "is_runtime_error (Xrt_error c s) = True"
| "is_runtime_error (Runtime_error s) = True"
| "is_runtime_error e = False"

fun is_std_exception :: "exn \<Rightarrow> bool" where
  "is_std_exception Non_std_exception = False"
| "is_std_exception e = True"

subsection \<open>Computations that may throw\<close>

type_synonym ('s, 'a) comp = "'s \<Rightarrow> (exn + 'a) \<times> 's"

definition ret :: "'a \<Rightarrow> ('s, 'a) comp" where
  "ret a s = (Inr a, s)"

definition throw :: "exn \<Rightarrow> ('s, 'a) comp" where
  "throw e s = (Inl e, s)"

definition bind :: "('s, 'a) comp \<Rightarrow> ('a \<Rightarrow> ('s, 'b) comp) \<Rightarrow> ('s, 'b) comp" where
  "bind m f s = (case m s of (Inl e, s') \<Rightarrow> (Inl e, s') | (Inr a, s') \<Rightarrow> f a s')"

definition seq :: "('s, 'a) comp \<Rightarrow> ('s, 'b) comp \<Rightarrow> ('s, 'b) comp" where
  "seq m n = bind m (\<lambda>_. n)"

text \<open>
  \<^verbatim>\<open>try { m } catch (const C&) { handler }\<close>: the handler runs in the state the
  body had reached; an exception that is not a \<^verbatim>\<open>C\<close> passes through.
\<close>

definition try_catch ::
  "('s, 'a) comp \<Rightarrow> (exn \<Rightarrow> bool) \<Rightarrow> (exn \<Rightarrow> ('s, 'a) comp) \<Rightarrow> ('s, 'a) comp" where
  "try_catch m catches handler s =
     (case m s of
        (Inl e, s') \<Rightarrow> if catches e then handler e s' else (Inl e, s')
      | (Inr a, s') \<Rightarrow> (Inr a, s'))"

subsection \<open>The world: files and observable events\<close>

type_synonym ptree_children = "(string \<times> string) list"

type_synonym ptree = "(string \<times> ptree_children) list"

datatype fs_entry = Ini_file ptree | Raw_file string

datatype query_key =
    Config_mailbox_channel_disable
  | Config_mailbox_channel_switch
  | Config_xclbin_change
  | Cache_xclbin
  | Is_mfg
  | Is_recovery
  | Is_versal
  | Xgq_scaling_enabled
  | Xgq_scaling_power_override
  | Xgq_scaling_temp_override
  | Xmc_scaling_enabled
  | Xmc_scaling_power_override
  | Xmc_scaling_temp_override

datatype event =
    Verbose string
  | Cerr string
  | Cout string
  | Print_help
  | Query query_key
  | Write_ini string

record world =
  files :: "string \<rightharpoonup> fs_entry"
  trace :: "event list"

definition emit :: "event \<Rightarrow> (world, unit) comp" where
  "emit ev w = (Inr (), w\<lparr>trace := trace w @ [ev]\<rparr>)"

definition verbose :: "string \<Rightarrow> (world, unit) comp" where
  "verbose msg = emit (Verbose msg)"

definition cerr :: "string \<Rightarrow> (world, unit) comp" where
  "cerr msg = emit (Cerr msg)"

definition cout :: "string \<Rightarrow> (world, unit) comp" where
  "cout msg = emit (Cout msg)"

definition printHelp :: "(world, unit) comp" where
  "printHelp = emit Print_help"

definition endl :: string where
  "endl = [CHR 0x0A]"

subsection \<open>The collaborators of the sub-command\<close>

text \<open>
  A device as the sub-command sees it: its index and what each of the thirteen queries
  of the source does on it, namely answer or throw. The configuration and scaling
  answers are kept in the textual form \<^verbatim>\<open>ptree::put\<close> stores.
\<close>

record device =
  get_device_id :: nat
  query_config_mailbox_channel_disable :: "exn + string"
  query_config_mailbox_channel_switch :: "exn + string"
  query_config_xclbin_change :: "exn + string"
  query_cache_xclbin :: "exn + string"
  query_is_mfg :: "exn + bool"
  query_is_recovery :: "exn + bool"
  query_is_versal :: "exn + bool"
  query_xgq_scaling_enabled :: "exn + string"
  query_xgq_scaling_power_override :: "exn + string"
  query_xgq_scaling_temp_override :: "exn + string"
  query_xmc_scaling_enabled :: "exn + string"
  query_xmc_scaling_power_override :: "exn + string"
  query_xmc_scaling_temp_override :: "exn + string"

text \<open>\<^verbatim>\<open>xrt_core::device_query<Q>(dev)\<close>: the query is recorded, then answers or throws.\<close>

definition device_query ::
  "query_key \<Rightarrow> (device \<Rightarrow> exn + 'a) \<Rightarrow> device \<Rightarrow> (world, 'a) comp" where
  "device_query k q dev w = (q dev, w\<lparr>trace := trace w @ [Query k]\<rparr>)"

text \<open>
  The class \<^verbatim>\<open>Flasher\<close> (flash/flasher.h) is used through two members only;
  \<^verbatim>\<open>readBack\<close> is left arbitrary.
\<close>

record flasher =
  isValid :: bool
  readBack :: "string \<Rightarrow> (world, int) comp"

text \<open>
  What the sub-command calls outside its own file: \<^verbatim>\<open>XBU::get_device\<close>,
  \<^verbatim>\<open>XBU::getForce\<close>, the constructor of \<^verbatim>\<open>Flasher\<close>, and whether
  \<^verbatim>\<open>write_ini\<close> can open a path for writing.
\<close>

record env =
  get_device :: "string \<Rightarrow> bool \<Rightarrow> exn + device"
  getForce :: bool
  Flasher :: "nat \<Rightarrow> flasher"
  writable :: "string \<Rightarrow> bool"

text \<open>\<^verbatim>\<open>boost::filesystem::exists\<close>\<close>

definition exists :: "string \<Rightarrow> (world, bool) comp" where
  "exists path w = (Inr (files w path \<noteq> None), w)"

text \<open>
  \<^verbatim>\<open>boost::property_tree::ini_parser::write_ini(filename, pt)\<close>: throws
  \<^verbatim>\<open>ini_parser_error\<close> (a \<^verbatim>\<open>std::runtime_error\<close>) when the file cannot be
  opened, and replaces the content of the file otherwise.
\<close>

definition write_ini :: "env \<Rightarrow> string \<Rightarrow> ptree \<Rightarrow> (world, unit) comp" where
  "write_ini env filename pt w =
     (let w1 = w\<lparr>trace := trace w @ [Write_ini filename]\<rparr>
      in if writable env filename
         then (Inr (), w1\<lparr>files := (files w1)(filename \<mapsto> Ini_file pt)\<rparr>)
         else (Inl (Runtime_error (filename @ '': cannot open file'')), w1))"

text \<open>
  \<^verbatim>\<open>ptree::put\<close> and \<^verbatim>\<open>ptree::put_child\<close> on a path of one component: the
  first child of that name is replaced, and a new child is appended when there is none.
\<close>

fun put :: "string \<Rightarrow> 'v \<Rightarrow> (string \<times> 'v) list \<Rightarrow> (string \<times> 'v) list" where
  "put k v [] = [(k, v)]"
| "put k v ((k', v') # kvs) = (if k' = k then (k, v) # kvs else (k', v') # put k v kvs)"

definition put_child :: "string \<Rightarrow> ptree_children \<Rightarrow> ptree \<Rightarrow> ptree" where
  "put_child k child pt = put k child pt"

text \<open>The rendering of \<^verbatim>\<open>%d\<close> for a device index.\<close>

definition digit :: "nat \<Rightarrow> char" where
  "digit n = ''0123456789'' ! (n mod 10)"

fun show_nat :: "nat \<Rightarrow> string" where
  "show_nat n = (if n < 10 then [digit n] else show_nat (n div 10) @ [digit n])"

declare show_nat.simps [simp del]

subsection \<open>flash\_dump\<close>

definition flash_dump :: "env \<Rightarrow> device \<Rightarrow> string \<Rightarrow> (world, unit) comp" where
  "flash_dump env dev m_output =
     (let flasher = Flasher env (get_device_id dev) in
      if \<not> isValid flasher then
        \<comment> \<open>the source constructs the exception object and does not throw it\<close>
        (let unthrown = Xrt_error Other_errc (show_nat (get_device_id dev) @ '' is an invalid index'')
         in ret ())
      else
        try_catch (bind (readBack flasher m_output) (\<lambda>_. ret ()))
          is_std_exception
          (\<lambda>ex. seq (cerr (''  ERROR: '' @ what ex @ endl @ endl))
                    (throw (Xrt_error Operation_canceled []))))"

subsection \<open>is\_supported\<close>

definition is_supported :: "device \<Rightarrow> (world, bool) comp" where
  "is_supported dev =
     bind (try_catch (device_query Is_mfg query_is_mfg dev)
             is_query_exception (\<lambda>_. ret False)) (\<lambda>is_mfg.
     bind (try_catch (device_query Is_recovery query_is_recovery dev)
             is_query_exception (\<lambda>_. ret False)) (\<lambda>is_recovery.
     if is_mfg \<or> is_recovery then
       seq (cerr (''This operation is not supported with ''
                   @ (if is_mfg then ''manufacturing'' else ''recovery'') @ '' image.'' @ endl))
           (ret False)
     else ret True))"

subsection \<open>config\_dump\<close>

text \<open>
  The body of \<^verbatim>\<open>config_dump\<close> mutates its local \<^verbatim>\<open>child\<close>; what has been put
  into it before a query throws is still there in the handler. So the body is a
  computation over the pair of \<^verbatim>\<open>child\<close> and the world.
\<close>

definition in_world :: "(world, 'a) comp \<Rightarrow> (ptree_children \<times> world, 'a) comp" where
  "in_world m s = (case m (snd s) of (r, w') \<Rightarrow> (r, (fst s, w')))"

definition get_child :: "(ptree_children \<times> world, ptree_children) comp" where
  "get_child s = (Inr (fst s), s)"

text \<open>\<^verbatim>\<open>child.put(k, xrt_core::device_query<Q>(_dev))\<close>: the query runs first.\<close>

definition child_put_query ::
  "string \<Rightarrow> query_key \<Rightarrow> (device \<Rightarrow> exn + string) \<Rightarrow> device
     \<Rightarrow> (ptree_children \<times> world, unit) comp" where
  "child_put_query k key q dev =
     bind (in_world (device_query key q dev)) (\<lambda>v s. (Inr (), (put k v (fst s), snd s)))"

text \<open>
  Lines 85 to 105 of \<^verbatim>\<open>config_dump\<close>: the four mandatory keys, then, on a
  supported device, the three scaling keys of the query family the device has, all three
  inside one \<^verbatim>\<open>try\<close> block.
\<close>

definition config_dump_child :: "device \<Rightarrow> (ptree_children \<times> world, unit) comp" where
  "config_dump_child dev =
     seq (child_put_query ''mailbox_channel_disable''
            Config_mailbox_channel_disable query_config_mailbox_channel_disable dev)
    (seq (child_put_query ''mailbox_channel_switch''
            Config_mailbox_channel_switch query_config_mailbox_channel_switch dev)
    (seq (child_put_query ''xclbin_change''
            Config_xclbin_change query_config_xclbin_change dev)
    (seq (child_put_query ''cache_xclbin'' Cache_xclbin query_cache_xclbin dev)
         (bind (in_world (is_supported dev)) (\<lambda>supported.
            if supported then
              bind (in_world (device_query Is_versal query_is_versal dev)) (\<lambda>is_versal.
                if is_versal then
                  try_catch
                    (seq (child_put_query ''scaling_enabled''
                            Xgq_scaling_enabled query_xgq_scaling_enabled dev)
                    (seq (child_put_query ''scaling_power_override''
                            Xgq_scaling_power_override query_xgq_scaling_power_override dev)
                         (child_put_query ''scaling_temp_override''
                            Xgq_scaling_temp_override query_xgq_scaling_temp_override dev)))
                    is_query_exception (\<lambda>_. ret ())
                else
                  try_catch
                    (seq (child_put_query ''scaling_enabled''
                            Xmc_scaling_enabled query_xmc_scaling_enabled dev)
                    (seq (child_put_query ''scaling_power_override''
                            Xmc_scaling_power_override query_xmc_scaling_power_override dev)
                         (child_put_query ''scaling_temp_override''
                            Xmc_scaling_temp_override query_xmc_scaling_temp_override dev)))
                    is_query_exception (\<lambda>_. ret ()))
            else ret ())))))"

text \<open>
  \<^verbatim>\<open>config_dump\<close>: \<^verbatim>\<open>child\<close> starts empty, is filled as above, becomes the
  section \<^verbatim>\<open>Device\<close> of \<^verbatim>\<open>ptRoot\<close>, and \<^verbatim>\<open>ptRoot\<close> is written.
\<close>

definition config_dump :: "env \<Rightarrow> device \<Rightarrow> string \<Rightarrow> (world, unit) comp" where
  "config_dump env dev m_output w =
     (case seq (config_dump_child dev)
               (bind get_child (\<lambda>child.
                  let ptRoot = put_child ''Device'' child [] in
                  seq (in_world (write_ini env m_output ptRoot))
                      (in_world (cout (''config has been dumped to '' @ m_output @ endl)))))
             ([], w)
      of (r, s) \<Rightarrow> (r, snd s))"

subsection \<open>SubCmdDump::execute\<close>

text \<open>
  The members of \<^verbatim>\<open>SubCmdDump\<close> that \<^verbatim>\<open>process_arguments\<close> has filled in
  from the command line.
\<close>

record SubCmdDump =
  m_device :: string
  m_output :: string
  m_flash :: bool
  m_config :: bool
  m_help :: bool

text \<open>\<^verbatim>\<open>for (auto & str : m_device) XBU::verbose(std::string(" ") + str);\<close>\<close>

fun verbose_each :: "string \<Rightarrow> (world, unit) comp" where
  "verbose_each [] = ret ()"
| "verbose_each (str # rest) = seq (verbose ('' '' @ [str])) (verbose_each rest)"

definition execute :: "env \<Rightarrow> SubCmdDump \<Rightarrow> (world, unit) comp" where
  "execute env cmd =
     seq (verbose ''SubCommand: dump'')
     (if m_help cmd then printHelp
      else
        seq (verbose ''SubCmd: Dump'')
       (seq (verbose ''Option: device'')
       (seq (verbose_each (m_device cmd))
       (bind (try_catch (\<lambda>w. (get_device env (m_device cmd) False, w))
                is_runtime_error
                (\<lambda>e. seq (cerr (''ERROR: '' @ what e @ endl))
                         (throw (Xrt_error Operation_canceled [])))) (\<lambda>device.
        seq (verbose (''Option: output: '' @ m_output cmd))
        (if m_output cmd = [] then
           seq (cerr (''ERROR: Please specify an output file using --output option'' @ endl @ endl))
          (seq printHelp
               (throw (Xrt_error Operation_canceled [])))
         else
           bind (exists (m_output cmd)) (\<lambda>output_exists.
           if m_output cmd \<noteq> [] \<and> output_exists \<and> \<not> getForce env then
             seq (cerr (''m_output file already exists: '' @ [CHR 0x27] @ m_output cmd @ [CHR 0x27]
                         @ endl @ endl))
                 (throw (Xrt_error Operation_canceled []))
           else if m_flash cmd then flash_dump env device (m_output cmd)
           else if m_config cmd then config_dump env device (m_output cmd)
           else
             seq (cerr (''ERROR: Please specify a valid option to determine the type of dump''
                         @ endl @ endl))
            (seq printHelp
                 (throw (Xrt_error Operation_canceled []))))))))))"

section \<open>Vocabulary of the statements\<close>

text \<open>
  What \<^verbatim>\<open>execute\<close> has reported through \<^verbatim>\<open>XBU::verbose\<close> when it reaches the
  check of the output option.
\<close>

definition option_trace :: "SubCmdDump \<Rightarrow> event list" where
  "option_trace cmd =
     [Verbose ''SubCommand: dump'', Verbose ''SubCmd: Dump'', Verbose ''Option: device'']
     @ map (\<lambda>str. Verbose ('' '' @ [str])) (m_device cmd)
     @ [Verbose (''Option: output: '' @ m_output cmd)]"

text \<open>The keys of a configuration dump, in the order of the source.\<close>

definition mandatory_keys :: "string list" where
  "mandatory_keys =
     [''mailbox_channel_disable'', ''mailbox_channel_switch'', ''xclbin_change'', ''cache_xclbin'']"

definition scaling_keys :: "string list" where
  "scaling_keys = [''scaling_enabled'', ''scaling_power_override'', ''scaling_temp_override'']"

definition mandatory_children ::
  "string \<Rightarrow> string \<Rightarrow> string \<Rightarrow> string \<Rightarrow> ptree_children" where
  "mandatory_children a b c d =
     [(''mailbox_channel_disable'', a), (''mailbox_channel_switch'', b),
      (''xclbin_change'', c), (''cache_xclbin'', d)]"

text \<open>The queries behind these keys, and what they do on a device, in the same order.\<close>

definition mandatory_query_keys :: "query_key list" where
  "mandatory_query_keys =
     [Config_mailbox_channel_disable, Config_mailbox_channel_switch, Config_xclbin_change,
      Cache_xclbin]"

definition mandatory_outcomes :: "device \<Rightarrow> (exn + string) list" where
  "mandatory_outcomes dev =
     [query_config_mailbox_channel_disable dev, query_config_mailbox_channel_switch dev,
      query_config_xclbin_change dev, query_cache_xclbin dev]"

definition scaling_query_keys :: "bool \<Rightarrow> query_key list" where
  "scaling_query_keys is_versal =
     (if is_versal
      then [Xgq_scaling_enabled, Xgq_scaling_power_override, Xgq_scaling_temp_override]
      else [Xmc_scaling_enabled, Xmc_scaling_power_override, Xmc_scaling_temp_override])"

definition scaling_outcomes :: "device \<Rightarrow> bool \<Rightarrow> (exn + string) list" where
  "scaling_outcomes dev is_versal =
     (if is_versal
      then [query_xgq_scaling_enabled dev, query_xgq_scaling_power_override dev,
            query_xgq_scaling_temp_override dev]
      else [query_xmc_scaling_enabled dev, query_xmc_scaling_power_override dev,
            query_xmc_scaling_temp_override dev])"

text \<open>
  Of a sequence of queries run in order: the exception of the first one that throws,
  and the answers given before it.
\<close>

fun first_failure :: "(exn + 'a) list \<Rightarrow> exn option" where
  "first_failure [] = None"
| "first_failure (Inl e # rs) = Some e"
| "first_failure (Inr v # rs) = first_failure rs"

fun answered_prefix :: "(exn + 'a) list \<Rightarrow> 'a list" where
  "answered_prefix [] = []"
| "answered_prefix (Inl e # rs) = []"
| "answered_prefix (Inr v # rs) = v # answered_prefix rs"

text \<open>
  The first query of such a sequence answers and a later one throws.
\<close>

fun later_failure :: "(exn + 'a) list \<Rightarrow> bool" where
  "later_failure (Inr v # rs) = (first_failure rs \<noteq> None)"
| "later_failure rs = False"

text \<open>
  A probe of \<^verbatim>\<open>is_supported\<close> is caught when it answers or throws a query
  exception, and does not flag the device when, moreover, its answer is not true.
\<close>

definition probe_caught :: "exn + bool \<Rightarrow> bool" where
  "probe_caught r = (case r of Inl e \<Rightarrow> is_query_exception e | Inr b \<Rightarrow> True)"

definition not_flagged :: "exn + bool \<Rightarrow> bool" where
  "not_flagged r = (case r of Inl e \<Rightarrow> is_query_exception e | Inr b \<Rightarrow> \<not> b)"

definition restricted_message :: "bool \<Rightarrow> string" where
  "restricted_message mfg =
     ''This operation is not supported with '' @ (if mfg then ''manufacturing'' else ''recovery'')
       @ '' image.'' @ endl"

text \<open>A result that is the canceled-operation error, whatever its message.\<close>

fun is_canceled :: "exn + 'a \<Rightarrow> bool" where
  "is_canceled (Inl (Xrt_error Operation_canceled msg)) = True"
| "is_canceled r = False"

text \<open>Events: queries, writes, and a run in which no query follows a write.\<close>

fun is_query :: "event \<Rightarrow> bool" where
  "is_query (Query k) = True"
| "is_query ev = False"

fun is_write :: "event \<Rightarrow> bool" where
  "is_write (Write_ini p) = True"
| "is_write ev = False"

fun queries_before_write :: "event list \<Rightarrow> bool" where
  "queries_before_write [] = True"
| "queries_before_write (ev # evs) =
     (if is_write ev then \<not> list_ex is_query evs else queries_before_write evs)"

section \<open>Concrete devices, environments and requests\<close>

definition unanswerable :: "exn + 'a" where
  "unanswerable = Inl (Query_exception ''no such key'')"

text \<open>
  A device that is not versal and not restricted, with the mandatory values
  (0x20, 0, 1, 0) and the scaling values (1, 0, 85).
\<close>

definition dev0 :: device where
  "dev0 = \<lparr>get_device_id = 7,
     query_config_mailbox_channel_disable = Inr ''0x20'',
     query_config_mailbox_channel_switch = Inr ''0'',
     query_config_xclbin_change = Inr ''1'',
     query_cache_xclbin = Inr ''0'',
     query_is_mfg = Inr False,
     query_is_recovery = Inr False,
     query_is_versal = Inr False,
     query_xgq_scaling_enabled = unanswerable,
     query_xgq_scaling_power_override = unanswerable,
     query_xgq_scaling_temp_override = unanswerable,
     query_xmc_scaling_enabled = Inr ''1'',
     query_xmc_scaling_power_override = Inr ''0'',
     query_xmc_scaling_temp_override = Inr ''85''\<rparr>"

definition flasher_invalid :: flasher where
  "flasher_invalid = \<lparr>isValid = False, readBack = (\<lambda>path. throw (Std_exception ''no flash''))\<rparr>"

definition flasher_valid :: flasher where
  "flasher_valid =
     \<lparr>isValid = True,
      readBack = (\<lambda>path w. (Inr 0, w\<lparr>files := (files w)(path \<mapsto> Raw_file ''flash image'')\<rparr>))\<rparr>"

text \<open>
  An environment in which every device name resolves to the given device, force is
  off, every path can be written, and the flash channel is as given.
\<close>

definition env_of :: "device \<Rightarrow> flasher \<Rightarrow> env" where
  "env_of dev fl =
     \<lparr>get_device = (\<lambda>bdf inUserDomain. Inr dev), getForce = False,
      Flasher = (\<lambda>idx. fl), writable = (\<lambda>path. True)\<rparr>"

definition world0 :: world where
  "world0 = \<lparr>files = Map.empty, trace = []\<rparr>"

definition world1 :: world where
  "world1 = \<lparr>files = [''out.ini'' \<mapsto> Raw_file ''keep''], trace = []\<rparr>"

definition cmd0 :: SubCmdDump where
  "cmd0 = \<lparr>m_device = ''d8'', m_output = ''out.ini'', m_flash = False, m_config = True,
           m_help = False\<rparr>"

section \<open>Running the building blocks\<close>

lemmas comp_defs = ret_def throw_def bind_def seq_def try_catch_def emit_def verbose_def
  cerr_def cout_def printHelp_def device_query_def in_world_def get_child_def
  child_put_query_def exists_def write_ini_def put_child_def

lemma verbose_each_trace:
  "verbose_each s w = (Inr (), w\<lparr>trace := trace w @ map (\<lambda>str. Verbose ('' '' @ [str])) s\<rparr>)"
  by (induction s arbitrary: w) (simp_all add: comp_defs)

lemma is_supported_not_flagged:
  assumes "not_flagged (query_is_mfg dev)" and "not_flagged (query_is_recovery dev)"
  shows "is_supported dev w = (Inr True, w\<lparr>trace := trace w @ [Query Is_mfg, Query Is_recovery]\<rparr>)"
  using assms
  by (auto simp add: is_supported_def not_flagged_def comp_defs split: sum.splits)

lemma is_supported_flagged:
  assumes "probe_caught (query_is_mfg dev)" and "probe_caught (query_is_recovery dev)"
    and "query_is_mfg dev = Inr True \<or> query_is_recovery dev = Inr True"
  shows "is_supported dev w =
     (Inr False, w\<lparr>trace := trace w @ [Query Is_mfg, Query Is_recovery,
        Cerr (restricted_message (query_is_mfg dev = Inr True))]\<rparr>)"
  using assms
  by (auto simp add: is_supported_def probe_caught_def restricted_message_def comp_defs
      split: sum.splits)

lemma mandatory_answered:
  assumes "first_failure (mandatory_outcomes dev) = None"
  obtains a b c d where "query_config_mailbox_channel_disable dev = Inr a"
    and "query_config_mailbox_channel_switch dev = Inr b"
    and "query_config_xclbin_change dev = Inr c"
    and "query_cache_xclbin dev = Inr d"
  using assms
  by (cases "query_config_mailbox_channel_disable dev";
      cases "query_config_mailbox_channel_switch dev";
      cases "query_config_xclbin_change dev";
      cases "query_cache_xclbin dev") (simp_all add: mandatory_outcomes_def)

section \<open>The paths through config\_dump\_child\<close>

lemma child_mandatory_failure:
  assumes "first_failure (mandatory_outcomes dev) = Some e"
  shows "config_dump_child dev ([], w) =
     (Inl e, (zip mandatory_keys (answered_prefix (mandatory_outcomes dev)),
              w\<lparr>trace := trace w @ map Query
                (take (Suc (length (answered_prefix (mandatory_outcomes dev)))) mandatory_query_keys)\<rparr>))"
  using assms
  by (cases "query_config_mailbox_channel_disable dev";
      cases "query_config_mailbox_channel_switch dev";
      cases "query_config_xclbin_change dev";
      cases "query_cache_xclbin dev")
     (simp_all add: mandatory_outcomes_def mandatory_keys_def mandatory_query_keys_def
        config_dump_child_def comp_defs)

lemma child_restricted:
  assumes "query_config_mailbox_channel_disable dev = Inr a"
    and "query_config_mailbox_channel_switch dev = Inr b"
    and "query_config_xclbin_change dev = Inr c"
    and "query_cache_xclbin dev = Inr d"
    and "probe_caught (query_is_mfg dev)" and "probe_caught (query_is_recovery dev)"
    and "query_is_mfg dev = Inr True \<or> query_is_recovery dev = Inr True"
  shows "config_dump_child dev ([], w) =
     (Inr (), (mandatory_children a b c d,
        w\<lparr>trace := trace w @ map Query mandatory_query_keys @ [Query Is_mfg, Query Is_recovery,
           Cerr (restricted_message (query_is_mfg dev = Inr True))]\<rparr>))"
  using assms(1-4) is_supported_flagged[OF assms(5-7)]
  by (simp add: mandatory_query_keys_def mandatory_children_def config_dump_child_def comp_defs)

lemma child_versal_failure:
  assumes "query_config_mailbox_channel_disable dev = Inr a"
    and "query_config_mailbox_channel_switch dev = Inr b"
    and "query_config_xclbin_change dev = Inr c"
    and "query_cache_xclbin dev = Inr d"
    and "not_flagged (query_is_mfg dev)" and "not_flagged (query_is_recovery dev)"
    and "query_is_versal dev = Inl e"
  shows "config_dump_child dev ([], w) =
     (Inl e, (mandatory_children a b c d,
        w\<lparr>trace := trace w @ map Query mandatory_query_keys
                  @ [Query Is_mfg, Query Is_recovery, Query Is_versal]\<rparr>))"
  using assms(1-4,7) is_supported_not_flagged[OF assms(5-6)]
  by (simp add: mandatory_query_keys_def mandatory_children_def config_dump_child_def comp_defs)

lemma child_scaling:
  assumes "query_config_mailbox_channel_disable dev = Inr a"
    and "query_config_mailbox_channel_switch dev = Inr b"
    and "query_config_xclbin_change dev = Inr c"
    and "query_cache_xclbin dev = Inr d"
    and "not_flagged (query_is_mfg dev)" and "not_flagged (query_is_recovery dev)"
    and "query_is_versal dev = Inr v"
    and "case first_failure (scaling_outcomes dev v) of None \<Rightarrow> True | Some e \<Rightarrow> is_query_exception e"
  shows "config_dump_child dev ([], w) =
     (Inr (), (mandatory_children a b c d @ zip scaling_keys (answered_prefix (scaling_outcomes dev v)),
        w\<lparr>trace := trace w @ map Query mandatory_query_keys
           @ [Query Is_mfg, Query Is_recovery, Query Is_versal]
           @ map Query (take (Suc (length (answered_prefix (scaling_outcomes dev v))))
                          (scaling_query_keys v))\<rparr>))"
proof (cases v)
  case True
  with assms(1-4,7-8) is_supported_not_flagged[OF assms(5-6)] show ?thesis
    by (cases "query_xgq_scaling_enabled dev";
        cases "query_xgq_scaling_power_override dev";
        cases "query_xgq_scaling_temp_override dev")
       (simp_all add: mandatory_query_keys_def mandatory_children_def scaling_keys_def
          scaling_query_keys_def scaling_outcomes_def config_dump_child_def comp_defs)
next
  case False
  with assms(1-4,7-8) is_supported_not_flagged[OF assms(5-6)] show ?thesis
    by (cases "query_xmc_scaling_enabled dev";
        cases "query_xmc_scaling_power_override dev";
        cases "query_xmc_scaling_temp_override dev")
       (simp_all add: mandatory_query_keys_def mandatory_children_def scaling_keys_def
          scaling_query_keys_def scaling_outcomes_def config_dump_child_def comp_defs)
qed

lemma child_quiet:
  assumes "config_dump_child dev ([], w) = (r, s)"
  shows "files (snd s) = files w \<and> (\<exists>evs. trace (snd s) = trace w @ evs \<and> \<not> list_ex is_write evs)"
  using assms
  by (auto simp add: config_dump_child_def is_supported_def comp_defs
      split: sum.splits if_splits)

section \<open>From config\_dump\_child to config\_dump\<close>

lemma config_dump_child_throws:
  assumes "config_dump_child dev ([], w) = (Inl e, s)"
  shows "config_dump env dev out w = (Inl e, snd s)"
  using assms by (simp add: config_dump_def seq_def bind_def)

lemma config_dump_child_written:
  assumes "config_dump_child dev ([], w) = (Inr (), s)" and "writable env out"
  shows "config_dump env dev out w =
     (Inr (), (snd s)\<lparr>files := (files (snd s))(out \<mapsto> Ini_file [(''Device'', fst s)]),
                 trace := trace (snd s) @ [Write_ini out, Cout (''config has been dumped to '' @ out @ endl)]\<rparr>)"
  using assms by (simp add: config_dump_def comp_defs)

lemma config_dump_child_unwritable:
  assumes "config_dump_child dev ([], w) = (Inr (), s)" and "\<not> writable env out"
  shows "config_dump env dev out w =
     (Inl (Runtime_error (out @ '': cannot open file'')),
      (snd s)\<lparr>trace := trace (snd s) @ [Write_ini out]\<rparr>)"
  using assms by (simp add: config_dump_def comp_defs)

lemma child_exact:
  assumes "config_dump_child dev ([], w) = (Inr (), s)"
  shows "first_failure (mandatory_outcomes dev) = None
    \<and> fst s = zip mandatory_keys (answered_prefix (mandatory_outcomes dev))
        @ (if query_is_mfg dev = Inr True \<or> query_is_recovery dev = Inr True then []
           else zip scaling_keys
                  (answered_prefix (scaling_outcomes dev (query_is_versal dev = Inr True))))"
  using assms
  by (auto simp add: config_dump_child_def is_supported_def comp_defs mandatory_keys_def
      scaling_keys_def mandatory_outcomes_def scaling_outcomes_def split: sum.splits if_splits)

lemma scaling_count_cases:
  "length (answered_prefix (scaling_outcomes dev v)) \<le> 3
   \<and> ((length (answered_prefix (scaling_outcomes dev v)) = 0
        \<or> length (answered_prefix (scaling_outcomes dev v)) = 3)
       \<longleftrightarrow> \<not> later_failure (scaling_outcomes dev v))"
  by (cases v;
      cases "query_xgq_scaling_enabled dev"; cases "query_xgq_scaling_power_override dev";
      cases "query_xgq_scaling_temp_override dev";
      cases "query_xmc_scaling_enabled dev"; cases "query_xmc_scaling_power_override dev";
      cases "query_xmc_scaling_temp_override dev")
     (simp_all add: scaling_outcomes_def)

lemma keys_of_zip:
  "length vs \<le> length ks \<Longrightarrow> map fst (zip ks vs) = take (length vs) ks"
  by (simp add: map_fst_zip_take min_def)

section \<open>The paths through execute\<close>

lemma execute_guard_passed:
  assumes "\<not> m_help cmd" and "get_device env (m_device cmd) False = Inr dev"
    and "m_output cmd \<noteq> []" and "files w (m_output cmd) = None \<or> getForce env"
  shows "execute env cmd w =
     (if m_flash cmd
      then flash_dump env dev (m_output cmd) (w\<lparr>trace := trace w @ option_trace cmd\<rparr>)
      else if m_config cmd
      then config_dump env dev (m_output cmd) (w\<lparr>trace := trace w @ option_trace cmd\<rparr>)
      else (Inl (Xrt_error Operation_canceled []),
            w\<lparr>trace := trace w @ option_trace cmd @
              [Cerr (''ERROR: Please specify a valid option to determine the type of dump''
                      @ endl @ endl),
               Print_help]\<rparr>))"
  using assms
  by (auto simp add: execute_def option_trace_def verbose_each_trace comp_defs)

lemma execute_output_empty:
  assumes "\<not> m_help cmd" and "get_device env (m_device cmd) False = Inr dev"
    and "m_output cmd = []"
  shows "execute env cmd w =
     (Inl (Xrt_error Operation_canceled []),
      w\<lparr>trace := trace w @ option_trace cmd @
        [Cerr (''ERROR: Please specify an output file using --output option'' @ endl @ endl),
         Print_help]\<rparr>)"
  using assms
  by (simp add: execute_def option_trace_def verbose_each_trace comp_defs)

lemma execute_output_exists:
  assumes "\<not> m_help cmd" and "get_device env (m_device cmd) False = Inr dev"
    and "m_output cmd \<noteq> []" and "files w (m_output cmd) \<noteq> None" and "\<not> getForce env"
  shows "execute env cmd w =
     (Inl (Xrt_error Operation_canceled []),
      w\<lparr>trace := trace w @ option_trace cmd @
        [Cerr (''m_output file already exists: '' @ [CHR 0x27] @ m_output cmd @ [CHR 0x27]
                @ endl @ endl)]\<rparr>)"
  using assms
  by (auto simp add: execute_def option_trace_def verbose_each_trace comp_defs)

lemma no_write_queries_before_write:
  "\<not> list_ex is_write evs \<Longrightarrow> queries_before_write (evs @ evs') = queries_before_write evs'"
  by (induction evs) simp_all

section \<open>The claims\<close>

lemmas fixture_defs = dev0_def unanswerable_def flasher_invalid_def flasher_valid_def env_of_def
  world0_def world1_def cmd0_def

subsection \<open>C1: a device without a valid flash channel\<close>

text \<open>
  C1 says that a flash dump on a device for which \<^verbatim>\<open>Flasher::isValid\<close> is false
  writes no file, reports the device index and ends with the canceled-operation error.
  The source builds the \<^verbatim>\<open>xrt_core::error\<close> that carries the message and
  never throws it: on device 7 with an invalid flash channel \<^verbatim>\<open>execute\<close> returns
  normally, the files are as they were, and nothing has been written to
  \<^verbatim>\<open>std::cerr\<close>.
\<close>

theorem flash_dump_invalid_index_returns_normally:
  "\<not> isValid (Flasher (env_of dev0 flasher_invalid) (get_device_id dev0))
   \<and> execute (env_of dev0 flasher_invalid) (cmd0\<lparr>m_flash := True, m_config := False\<rparr>) world0 =
     (Inr (), world0\<lparr>trace :=
        [Verbose ''SubCommand: dump'', Verbose ''SubCmd: Dump'', Verbose ''Option: device'',
         Verbose '' d'', Verbose '' 8'', Verbose ''Option: output: out.ini'']\<rparr>)"
  by (simp add: fixture_defs execute_def flash_dump_def comp_defs)

subsection \<open>C2: a scaling query that fails\<close>

text \<open>
  C2 as stated (a scaling query that fails removes its own key only) is false: when the
  first scaling query of the family is the one of the three that fails, the dump
  completes and none of the three scaling keys is in the file.
\<close>

theorem scaling_first_query_fails_counterexample:
  "fst (config_dump (env_of dev0 flasher_invalid)
          (dev0\<lparr>query_xmc_scaling_enabled := unanswerable\<rparr>) ''out.ini'' world0) = Inr ()
   \<and> files (snd (config_dump (env_of dev0 flasher_invalid)
          (dev0\<lparr>query_xmc_scaling_enabled := unanswerable\<rparr>) ''out.ini'' world0)) ''out.ini'' =
     Some (Ini_file [(''Device'',
       [(''mailbox_channel_disable'', ''0x20''), (''mailbox_channel_switch'', ''0''),
        (''xclbin_change'', ''1''), (''cache_xclbin'', ''0'')])])"
  by (simp add: fixture_defs config_dump_def config_dump_child_def is_supported_def comp_defs)


text \<open>
  C2, amended: on a device that is not restricted, whose mandatory queries and
  \<^verbatim>\<open>is_versal\<close> answer, a query exception from a scaling query of the family
  of the device removes the key of that query and the scaling keys queried after it. The
  scaling keys queried before it are in the file with their answers, after the four
  mandatory keys, and the dump is not aborted.
\<close>

theorem scaling_failure_keeps_earlier_keys:
  assumes "query_config_mailbox_channel_disable dev = Inr a"
    and "query_config_mailbox_channel_switch dev = Inr b"
    and "query_config_xclbin_change dev = Inr c"
    and "query_cache_xclbin dev = Inr d"
    and "not_flagged (query_is_mfg dev)" and "not_flagged (query_is_recovery dev)"
    and "query_is_versal dev = Inr v"
    and "first_failure (scaling_outcomes dev v) = Some (Query_exception msg)"
    and "writable env out"
  shows "fst (config_dump env dev out w) = Inr ()
    \<and> files (snd (config_dump env dev out w)) =
        (files w)(out \<mapsto> Ini_file [(''Device'',
           mandatory_children a b c d
           @ zip scaling_keys (answered_prefix (scaling_outcomes dev v)))])"
proof -
  have "case first_failure (scaling_outcomes dev v) of None \<Rightarrow> True
        | Some e \<Rightarrow> is_query_exception e"
    using assms(8) by simp
  from child_scaling[OF assms(1-7) this] assms(9) show ?thesis
    by (simp add: config_dump_child_written)
qed


text \<open>The third scaling query fails: the first two scaling keys are dumped.\<close>

theorem scaling_failure_keeps_earlier_keys_witness:
  "fst (config_dump (env_of dev0 flasher_invalid)
          (dev0\<lparr>query_xmc_scaling_temp_override := unanswerable\<rparr>) ''out.ini'' world0) = Inr ()
   \<and> files (snd (config_dump (env_of dev0 flasher_invalid)
          (dev0\<lparr>query_xmc_scaling_temp_override := unanswerable\<rparr>) ''out.ini'' world0)) ''out.ini'' =
     Some (Ini_file [(''Device'',
       [(''mailbox_channel_disable'', ''0x20''), (''mailbox_channel_switch'', ''0''),
        (''xclbin_change'', ''1''), (''cache_xclbin'', ''0''),
        (''scaling_enabled'', ''1''), (''scaling_power_override'', ''0'')])])"
proof -
  let ?dev = "dev0\<lparr>query_xmc_scaling_temp_override := unanswerable\<rparr>"
  have h: "query_config_mailbox_channel_disable ?dev = Inr ''0x20''"
    "query_config_mailbox_channel_switch ?dev = Inr ''0''"
    "query_config_xclbin_change ?dev = Inr ''1''"
    "query_cache_xclbin ?dev = Inr ''0''"
    "not_flagged (query_is_mfg ?dev)" "not_flagged (query_is_recovery ?dev)"
    "query_is_versal ?dev = Inr False"
    "first_failure (scaling_outcomes ?dev False) = Some (Query_exception ''no such key'')"
    "writable (env_of dev0 flasher_invalid) ''out.ini''"
    by (simp_all add: fixture_defs not_flagged_def scaling_outcomes_def)
  show ?thesis
    using scaling_failure_keeps_earlier_keys[OF h, of world0]
    by (simp add: fixture_defs scaling_outcomes_def scaling_keys_def mandatory_children_def)
qed

subsection \<open>C3: the keys of a configuration dump\<close>

text \<open>
  C3 as stated (the number of scaling keys is 0 or 3, never 1 or 2) is false: when the
  second scaling query fails, the dump has the four mandatory keys and exactly one
  scaling key.
\<close>

theorem one_scaling_key_counterexample:
  "fst (config_dump (env_of dev0 flasher_invalid)
          (dev0\<lparr>query_xmc_scaling_power_override := unanswerable\<rparr>) ''out.ini'' world0) = Inr ()
   \<and> files (snd (config_dump (env_of dev0 flasher_invalid)
          (dev0\<lparr>query_xmc_scaling_power_override := unanswerable\<rparr>) ''out.ini'' world0)) ''out.ini'' =
     Some (Ini_file [(''Device'',
       [(''mailbox_channel_disable'', ''0x20''), (''mailbox_channel_switch'', ''0''),
        (''xclbin_change'', ''1''), (''cache_xclbin'', ''0''), (''scaling_enabled'', ''1'')])])"
  by (simp add: fixture_defs config_dump_def config_dump_child_def is_supported_def comp_defs)


text \<open>
  C3, amended: every configuration dump that completes has written one section
  \<^verbatim>\<open>Device\<close> whose keys are the four mandatory keys followed by the first
  \<open>n\<close> of the three scaling keys, where \<open>n\<close> is 0 on a restricted device and
  otherwise the number of scaling queries of the family of the device that answer before
  the first one that throws. So the number of scaling keys is 0 or 3, and never 1 or 2,
  exactly when the device is restricted, or the first scaling query throws, or all three
  answer; it is 1 or 2 exactly when the device is not restricted and the second or the
  third scaling query is the first to throw.
\<close>

theorem config_dump_keys_shape:
  assumes "config_dump env dev out w = (Inr (), w')"
  shows "\<exists>child n. files w' out = Some (Ini_file [(''Device'', child)])
     \<and> map fst child = mandatory_keys @ take n scaling_keys
     \<and> n = (if query_is_mfg dev = Inr True \<or> query_is_recovery dev = Inr True then 0
            else length (answered_prefix (scaling_outcomes dev (query_is_versal dev = Inr True))))
     \<and> ((n = 0 \<or> n = 3) \<longleftrightarrow>
          (query_is_mfg dev = Inr True \<or> query_is_recovery dev = Inr True
           \<or> \<not> later_failure (scaling_outcomes dev (query_is_versal dev = Inr True))))"
proof -
  let ?restricted = "query_is_mfg dev = Inr True \<or> query_is_recovery dev = Inr True"
  let ?answers = "answered_prefix (scaling_outcomes dev (query_is_versal dev = Inr True))"
  let ?n = "if ?restricted then 0 else length ?answers"
  obtain r s where run: "config_dump_child dev ([], w) = (r, s)"
    by (cases "config_dump_child dev ([], w)")
  have r: "r = Inr ()"
  proof (cases r)
    case (Inl e)
    with run assms show ?thesis by (simp add: config_dump_child_throws)
  next
    case (Inr u)
    then show ?thesis by simp
  qed
  with run have run': "config_dump_child dev ([], w) = (Inr (), s)" by simp
  have written: "files w' out = Some (Ini_file [(''Device'', fst s)])"
  proof (cases "writable env out")
    case True
    from config_dump_child_written[OF run' True] assms show ?thesis by auto
  next
    case False
    from config_dump_child_unwritable[OF run' False] assms show ?thesis by simp
  qed
  from child_exact[OF run'] have none: "first_failure (mandatory_outcomes dev) = None"
    and child: "fst s = zip mandatory_keys (answered_prefix (mandatory_outcomes dev))
        @ (if ?restricted then [] else zip scaling_keys ?answers)"
    by blast+
  from none obtain a b c d where
    "query_config_mailbox_channel_disable dev = Inr a"
    "query_config_mailbox_channel_switch dev = Inr b"
    "query_config_xclbin_change dev = Inr c"
    "query_cache_xclbin dev = Inr d"
    by (rule mandatory_answered)
  then have mand: "map fst (zip mandatory_keys (answered_prefix (mandatory_outcomes dev)))
      = mandatory_keys"
    by (simp add: mandatory_outcomes_def mandatory_keys_def)
  have count: "length ?answers \<le> 3"
    and zero_or_three: "(length ?answers = 0 \<or> length ?answers = 3)
       \<longleftrightarrow> \<not> later_failure (scaling_outcomes dev (query_is_versal dev = Inr True))"
    using scaling_count_cases[of dev "query_is_versal dev = Inr True"] by blast+
  from count have "map fst (zip scaling_keys ?answers) = take (length ?answers) scaling_keys"
    by (intro keys_of_zip) (simp add: scaling_keys_def)
  with child mand have keys: "map fst (fst s) = mandatory_keys @ take ?n scaling_keys"
    by simp
  have "(?n = 0 \<or> ?n = 3) \<longleftrightarrow>
      (?restricted \<or> \<not> later_failure (scaling_outcomes dev (query_is_versal dev = Inr True)))"
    using zero_or_three by auto
  with written keys show ?thesis by blast
qed


text \<open>
  The dump of the device \<open>dev0\<close> completes; the device is not restricted and its three
  scaling queries answer, so \<open>n\<close> is 3.
\<close>

theorem config_dump_keys_shape_witness:
  "\<exists>child. files (snd (config_dump (env_of dev0 flasher_invalid) dev0 ''out.ini'' world0)) ''out.ini''
              = Some (Ini_file [(''Device'', child)])
     \<and> map fst child = mandatory_keys @ take 3 scaling_keys"
proof -
  have "fst (config_dump (env_of dev0 flasher_invalid) dev0 ''out.ini'' world0) = Inr ()"
    by (simp add: fixture_defs config_dump_def config_dump_child_def is_supported_def comp_defs)
  then have run: "config_dump (env_of dev0 flasher_invalid) dev0 ''out.ini'' world0 =
      (Inr (), snd (config_dump (env_of dev0 flasher_invalid) dev0 ''out.ini'' world0))"
    by (metis prod.collapse)
  have n: "(if query_is_mfg dev0 = Inr True \<or> query_is_recovery dev0 = Inr True then 0
            else length (answered_prefix (scaling_outcomes dev0 (query_is_versal dev0 = Inr True))))
           = 3"
    by (simp add: fixture_defs scaling_outcomes_def)
  from config_dump_keys_shape[OF run] n show ?thesis by auto
qed


subsection \<open>C4: the query is\_versal fails\<close>

text \<open>
  C4 as stated (an unanswerable \<^verbatim>\<open>is_versal\<close> is caught in
  \<^verbatim>\<open>config_dump\<close> and replaced by a default variant) is false: the query is
  made outside every \<^verbatim>\<open>try\<close> block, so its exception leaves
  \<^verbatim>\<open>config_dump\<close> and no file is written.
\<close>

theorem is_versal_failure_counterexample:
  "fst (config_dump (env_of dev0 flasher_invalid)
          (dev0\<lparr>query_is_versal := unanswerable\<rparr>) ''out.ini'' world0)
     = Inl (Query_exception ''no such key'')
   \<and> files (snd (config_dump (env_of dev0 flasher_invalid)
          (dev0\<lparr>query_is_versal := unanswerable\<rparr>) ''out.ini'' world0)) ''out.ini'' = None"
  by (simp add: fixture_defs config_dump_def config_dump_child_def is_supported_def comp_defs)


text \<open>
  C4, amended: on a device that is not restricted and whose mandatory queries answer,
  an exception of the query \<^verbatim>\<open>is_versal\<close> is not caught. It leaves
  \<^verbatim>\<open>config_dump\<close> unchanged, after the four mandatory queries, the two probes
  and \<^verbatim>\<open>is_versal\<close> itself; no scaling query is made and nothing is written.
\<close>

theorem is_versal_failure_propagates:
  assumes "first_failure (mandatory_outcomes dev) = None"
    and "not_flagged (query_is_mfg dev)" and "not_flagged (query_is_recovery dev)"
    and "query_is_versal dev = Inl e"
  shows "config_dump env dev out w =
     (Inl e, w\<lparr>trace := trace w @ map Query mandatory_query_keys
                  @ [Query Is_mfg, Query Is_recovery, Query Is_versal]\<rparr>)"
proof -
  from assms(1) obtain a b c d where
    "query_config_mailbox_channel_disable dev = Inr a"
    "query_config_mailbox_channel_switch dev = Inr b"
    "query_config_xclbin_change dev = Inr c"
    "query_cache_xclbin dev = Inr d"
    by (rule mandatory_answered)
  from child_versal_failure[OF this assms(2-4)] show ?thesis
    by (simp add: config_dump_child_throws)
qed


text \<open>A device whose recovery probe and variant query are both unanswerable.\<close>

theorem is_versal_failure_propagates_witness:
  "config_dump (env_of dev0 flasher_invalid)
      (dev0\<lparr>query_is_recovery := unanswerable, query_is_versal := Inl (Query_exception ''not supported'')\<rparr>)
      ''out.ini'' world1 =
     (Inl (Query_exception ''not supported''),
      world1\<lparr>trace := [Query Config_mailbox_channel_disable, Query Config_mailbox_channel_switch,
         Query Config_xclbin_change, Query Cache_xclbin, Query Is_mfg, Query Is_recovery,
         Query Is_versal]\<rparr>)"
proof -
  let ?dev = "dev0\<lparr>query_is_recovery := unanswerable,
                   query_is_versal := Inl (Query_exception ''not supported'')\<rparr>"
  have h: "first_failure (mandatory_outcomes ?dev) = None"
    "not_flagged (query_is_mfg ?dev)" "not_flagged (query_is_recovery ?dev)"
    "query_is_versal ?dev = Inl (Query_exception ''not supported'')"
    by (simp_all add: fixture_defs not_flagged_def mandatory_outcomes_def)
  show ?thesis
    using is_versal_failure_propagates[OF h, of "env_of dev0 flasher_invalid" "''out.ini''" world1]
    by (simp add: world1_def mandatory_query_keys_def)
qed

subsection \<open>C5: a mandatory query fails\<close>

text \<open>
  C5 as stated (the failure of a mandatory query reaches the caller as the
  canceled-operation error) is false: nothing between the query and the caller of
  \<^verbatim>\<open>execute\<close> catches the exception, so the caller receives the exception of
  the query itself.
\<close>

theorem mandatory_failure_not_canceled_counterexample:
  "fst (execute (env_of (dev0\<lparr>query_cache_xclbin := unanswerable\<rparr>) flasher_invalid) cmd0 world0)
     = Inl (Query_exception ''no such key'')
   \<and> \<not> is_canceled (fst (execute (env_of (dev0\<lparr>query_cache_xclbin := unanswerable\<rparr>)
            flasher_invalid) cmd0 world0))"
  by (simp add: fixture_defs execute_def config_dump_def config_dump_child_def comp_defs)


text \<open>
  C5, amended: when one of the four mandatory queries throws, the whole dump fails with
  the exception of the first mandatory query that throws. The exception leaves
  \<^verbatim>\<open>config_dump\<close> and \<^verbatim>\<open>execute\<close> as it is (it is neither swallowed
  nor turned into the canceled-operation error), and no file is written.
\<close>

theorem mandatory_failure_propagates:
  assumes "first_failure (mandatory_outcomes dev) = Some e"
    and "\<not> m_help cmd" and "get_device env (m_device cmd) False = Inr dev"
    and "m_output cmd \<noteq> []" and "files w (m_output cmd) = None \<or> getForce env"
    and "\<not> m_flash cmd" and "m_config cmd"
  shows "fst (config_dump env dev (m_output cmd) w) = Inl e
    \<and> fst (execute env cmd w) = Inl e
    \<and> files (snd (execute env cmd w)) = files w"
  using assms(6,7)
  by (simp add: execute_guard_passed[OF assms(2-5)]
      config_dump_child_throws[OF child_mandatory_failure[OF assms(1)]])


text \<open>The second mandatory query throws a runtime error that is not a query exception.\<close>

theorem mandatory_failure_propagates_witness:
  "fst (config_dump (env_of (dev0\<lparr>query_config_mailbox_channel_switch := Inl (Runtime_error ''mailbox'')\<rparr>)
          flasher_invalid)
        (dev0\<lparr>query_config_mailbox_channel_switch := Inl (Runtime_error ''mailbox'')\<rparr>)
        ''out.ini'' world0) = Inl (Runtime_error ''mailbox'')
   \<and> fst (execute (env_of (dev0\<lparr>query_config_mailbox_channel_switch := Inl (Runtime_error ''mailbox'')\<rparr>)
          flasher_invalid) cmd0 world0) = Inl (Runtime_error ''mailbox'')
   \<and> files (snd (execute (env_of (dev0\<lparr>query_config_mailbox_channel_switch := Inl (Runtime_error ''mailbox'')\<rparr>)
          flasher_invalid) cmd0 world0)) = files world0"
proof -
  let ?dev = "dev0\<lparr>query_config_mailbox_channel_switch := Inl (Runtime_error ''mailbox'')\<rparr>"
  have h: "first_failure (mandatory_outcomes ?dev) = Some (Runtime_error ''mailbox'')"
    "\<not> m_help cmd0" "get_device (env_of ?dev flasher_invalid) (m_device cmd0) False = Inr ?dev"
    "m_output cmd0 \<noteq> []"
    "files world0 (m_output cmd0) = None \<or> getForce (env_of ?dev flasher_invalid)"
    "\<not> m_flash cmd0" "m_config cmd0"
    by (simp_all add: fixture_defs mandatory_outcomes_def)
  show ?thesis
    using mandatory_failure_propagates[OF h] by (simp add: cmd0_def)
qed

subsection \<open>C6: a restricted device\<close>

text \<open>
  C6: on a device flagged restricted (the manufacturing probe or the recovery probe
  answers true) the configuration dump holds the four mandatory keys and no scaling key,
  whatever the variant of the device is (\<^verbatim>\<open>is_versal\<close> is not even queried),
  and the message naming the restricted image has been written to \<^verbatim>\<open>std::cerr\<close>
  before the file is.
\<close>

theorem restricted_device_mandatory_only:
  assumes "query_config_mailbox_channel_disable dev = Inr a"
    and "query_config_mailbox_channel_switch dev = Inr b"
    and "query_config_xclbin_change dev = Inr c"
    and "query_cache_xclbin dev = Inr d"
    and "probe_caught (query_is_mfg dev)" and "probe_caught (query_is_recovery dev)"
    and "query_is_mfg dev = Inr True \<or> query_is_recovery dev = Inr True"
    and "writable env out"
  shows "config_dump env dev out w =
     (Inr (), w\<lparr>files := (files w)(out \<mapsto> Ini_file [(''Device'', mandatory_children a b c d)]),
         trace := trace w @ map Query mandatory_query_keys @ [Query Is_mfg, Query Is_recovery,
           Cerr (restricted_message (query_is_mfg dev = Inr True)),
           Write_ini out, Cout (''config has been dumped to '' @ out @ endl)]\<rparr>)"
  by (simp add: config_dump_child_written[OF child_restricted[OF assms(1-7)] assms(8)])


text \<open>A versal device with a recovery image.\<close>

theorem restricted_device_mandatory_only_witness:
  "fst (config_dump (env_of dev0 flasher_invalid)
          (dev0\<lparr>query_is_recovery := Inr True, query_is_versal := Inr True\<rparr>) ''out.ini'' world0) = Inr ()
   \<and> files (snd (config_dump (env_of dev0 flasher_invalid)
          (dev0\<lparr>query_is_recovery := Inr True, query_is_versal := Inr True\<rparr>) ''out.ini'' world0)) ''out.ini'' =
       Some (Ini_file [(''Device'',
         [(''mailbox_channel_disable'', ''0x20''), (''mailbox_channel_switch'', ''0''),
          (''xclbin_change'', ''1''), (''cache_xclbin'', ''0'')])])
   \<and> trace (snd (config_dump (env_of dev0 flasher_invalid)
          (dev0\<lparr>query_is_recovery := Inr True, query_is_versal := Inr True\<rparr>) ''out.ini'' world0)) =
       [Query Config_mailbox_channel_disable, Query Config_mailbox_channel_switch,
        Query Config_xclbin_change, Query Cache_xclbin, Query Is_mfg, Query Is_recovery,
        Cerr (''This operation is not supported with recovery image.'' @ endl),
        Write_ini ''out.ini'', Cout (''config has been dumped to out.ini'' @ endl)]"
proof -
  let ?dev = "dev0\<lparr>query_is_recovery := Inr True, query_is_versal := Inr True\<rparr>"
  have h: "query_config_mailbox_channel_disable ?dev = Inr ''0x20''"
    "query_config_mailbox_channel_switch ?dev = Inr ''0''"
    "query_config_xclbin_change ?dev = Inr ''1''"
    "query_cache_xclbin ?dev = Inr ''0''"
    "probe_caught (query_is_mfg ?dev)" "probe_caught (query_is_recovery ?dev)"
    "query_is_mfg ?dev = Inr True \<or> query_is_recovery ?dev = Inr True"
    "writable (env_of dev0 flasher_invalid) ''out.ini''"
    by (simp_all add: fixture_defs probe_caught_def)
  show ?thesis
    using restricted_device_mandatory_only[OF h, of world0]
    by (simp add: fixture_defs mandatory_children_def mandatory_query_keys_def restricted_message_def)
qed

subsection \<open>C7: the output exists and force is off\<close>

text \<open>
  C7: a dump request (help is not asked for and the device resolves) whose output path
  exists while force is off ends with the canceled-operation error after the message that
  the file exists. No dump path has run: whatever the mode flags, the device and the flash
  channel are, the only events are the verbose lines and that message, and every file is
  as it was.
\<close>

theorem existing_output_refused:
  assumes "\<not> m_help cmd" and "get_device env (m_device cmd) False = Inr dev"
    and "m_output cmd \<noteq> []" and "files w (m_output cmd) \<noteq> None" and "\<not> getForce env"
  shows "execute env cmd w =
     (Inl (Xrt_error Operation_canceled []),
      w\<lparr>trace := trace w @ option_trace cmd @
        [Cerr (''m_output file already exists: '' @ [CHR 0x27] @ m_output cmd @ [CHR 0x27]
                @ endl @ endl)]\<rparr>)
    \<and> files (snd (execute env cmd w)) = files w"
  by (simp add: execute_output_exists[OF assms])


text \<open>Both modes requested, on a device whose flash channel would write the file.\<close>

theorem existing_output_refused_witness:
  "fst (execute (env_of dev0 flasher_valid) (cmd0\<lparr>m_flash := True\<rparr>) world1)
     = Inl (Xrt_error Operation_canceled [])
   \<and> files (snd (execute (env_of dev0 flasher_valid) (cmd0\<lparr>m_flash := True\<rparr>) world1)) ''out.ini''
     = Some (Raw_file ''keep'')
   \<and> trace (snd (execute (env_of dev0 flasher_valid) (cmd0\<lparr>m_flash := True\<rparr>) world1)) =
       [Verbose ''SubCommand: dump'', Verbose ''SubCmd: Dump'', Verbose ''Option: device'',
        Verbose '' d'', Verbose '' 8'', Verbose ''Option: output: out.ini'',
        Cerr (''m_output file already exists: '' @ [CHR 0x27] @ ''out.ini'' @ [CHR 0x27] @ endl @ endl)]"
proof -
  let ?cmd = "cmd0\<lparr>m_flash := True\<rparr>"
  have h: "\<not> m_help ?cmd"
    "get_device (env_of dev0 flasher_valid) (m_device ?cmd) False = Inr dev0"
    "m_output ?cmd \<noteq> []" "files world1 (m_output ?cmd) \<noteq> None"
    "\<not> getForce (env_of dev0 flasher_valid)"
    by (simp_all add: fixture_defs)
  show ?thesis
    using existing_output_refused[OF h]
    by (simp add: cmd0_def world1_def option_trace_def)
qed

subsection \<open>C8: the output path is empty\<close>

text \<open>
  C8: a dump request with an empty output path ends with the canceled-operation error,
  after the message asking for an output file and the help text; the check comes before
  both dump paths, and no file is created or changed.
\<close>

theorem empty_output_refused:
  assumes "\<not> m_help cmd" and "get_device env (m_device cmd) False = Inr dev"
    and "m_output cmd = []"
  shows "execute env cmd w =
     (Inl (Xrt_error Operation_canceled []),
      w\<lparr>trace := trace w @ option_trace cmd @
        [Cerr (''ERROR: Please specify an output file using --output option'' @ endl @ endl),
         Print_help]\<rparr>)
    \<and> files (snd (execute env cmd w)) = files w"
  by (simp add: execute_output_empty[OF assms])


text \<open>A configuration request without output path.\<close>

theorem empty_output_refused_witness:
  "fst (execute (env_of dev0 flasher_valid) (cmd0\<lparr>m_output := []\<rparr>) world1)
     = Inl (Xrt_error Operation_canceled [])
   \<and> files (snd (execute (env_of dev0 flasher_valid) (cmd0\<lparr>m_output := []\<rparr>) world1)) = files world1
   \<and> trace (snd (execute (env_of dev0 flasher_valid) (cmd0\<lparr>m_output := []\<rparr>) world1)) =
       [Verbose ''SubCommand: dump'', Verbose ''SubCmd: Dump'', Verbose ''Option: device'',
        Verbose '' d'', Verbose '' 8'', Verbose ''Option: output: '',
        Cerr (''ERROR: Please specify an output file using --output option'' @ endl @ endl),
        Print_help]"
proof -
  let ?cmd = "cmd0\<lparr>m_output := []\<rparr>"
  have h: "\<not> m_help ?cmd"
    "get_device (env_of dev0 flasher_valid) (m_device ?cmd) False = Inr dev0"
    "m_output ?cmd = []"
    by (simp_all add: fixture_defs)
  show ?thesis
    using empty_output_refused[OF h, of world1]
    by (simp add: cmd0_def world1_def option_trace_def)
qed

subsection \<open>C9: both modes, or none\<close>

text \<open>
  C9: when both the flash flag and the config flag are set and the output check passes,
  \<^verbatim>\<open>execute\<close> is \<^verbatim>\<open>flash_dump\<close> on the resolved device, and does
  exactly what it does with the config flag off: \<^verbatim>\<open>config_dump\<close> is not
  entered. With neither flag set, \<^verbatim>\<open>execute\<close> ends with the
  canceled-operation error and the files are as they were.
\<close>

theorem flash_takes_precedence:
  assumes "\<not> m_help cmd" and "get_device env (m_device cmd) False = Inr dev"
  shows "(m_output cmd \<noteq> [] \<and> (files w (m_output cmd) = None \<or> getForce env) \<longrightarrow>
            execute env (cmd\<lparr>m_flash := True, m_config := True\<rparr>) w =
              flash_dump env dev (m_output cmd) (w\<lparr>trace := trace w @ option_trace cmd\<rparr>)
          \<and> execute env (cmd\<lparr>m_flash := True, m_config := True\<rparr>) w =
              execute env (cmd\<lparr>m_flash := True, m_config := False\<rparr>) w)
    \<and> fst (execute env (cmd\<lparr>m_flash := False, m_config := False\<rparr>) w)
         = Inl (Xrt_error Operation_canceled [])
    \<and> files (snd (execute env (cmd\<lparr>m_flash := False, m_config := False\<rparr>) w)) = files w"
proof -
  have both: "execute env (cmd\<lparr>m_flash := True, m_config := c\<rparr>) w =
      flash_dump env dev (m_output cmd) (w\<lparr>trace := trace w @ option_trace cmd\<rparr>)"
    if "m_output cmd \<noteq> []" and "files w (m_output cmd) = None \<or> getForce env" for c
    using execute_guard_passed[of "cmd\<lparr>m_flash := True, m_config := c\<rparr>" env dev w] assms that
    by (simp add: option_trace_def)
  let ?none = "cmd\<lparr>m_flash := False, m_config := False\<rparr>"
  have neither: "fst (execute env ?none w) = Inl (Xrt_error Operation_canceled [])
      \<and> files (snd (execute env ?none w)) = files w"
  proof (cases "m_output cmd = []")
    case True
    with execute_output_empty[of ?none env dev w] assms show ?thesis by simp
  next
    case False
    show ?thesis
    proof (cases "files w (m_output cmd) = None \<or> getForce env")
      case True
      with False execute_guard_passed[of ?none env dev w] assms show ?thesis by simp
    next
      case False
      with \<open>m_output cmd \<noteq> []\<close> execute_output_exists[of ?none env dev w] assms
      show ?thesis by simp
    qed
  qed
  from both neither show ?thesis by simp
qed


text \<open>With a valid flash channel and both flags set, the flash image is what is written.\<close>

theorem flash_takes_precedence_witness:
  "execute (env_of dev0 flasher_valid) (cmd0\<lparr>m_flash := True, m_config := True\<rparr>) world0 =
     (Inr (), \<lparr>files = [''out.ini'' \<mapsto> Raw_file ''flash image''],
        trace = [Verbose ''SubCommand: dump'', Verbose ''SubCmd: Dump'', Verbose ''Option: device'',
          Verbose '' d'', Verbose '' 8'', Verbose ''Option: output: out.ini'']\<rparr>)
   \<and> fst (execute (env_of dev0 flasher_valid) (cmd0\<lparr>m_flash := False, m_config := False\<rparr>) world0)
       = Inl (Xrt_error Operation_canceled [])
   \<and> files (snd (execute (env_of dev0 flasher_valid) (cmd0\<lparr>m_flash := False, m_config := False\<rparr>) world0))
       = files world0"
proof -
  have h: "\<not> m_help cmd0"
    "get_device (env_of dev0 flasher_valid) (m_device cmd0) False = Inr dev0"
    by (simp_all add: fixture_defs)
  have g: "m_output cmd0 \<noteq> [] \<and>
      (files world0 (m_output cmd0) = None \<or> getForce (env_of dev0 flasher_valid))"
    by (simp add: fixture_defs)
  have "flash_dump (env_of dev0 flasher_valid) dev0 (m_output cmd0)
          (world0\<lparr>trace := trace world0 @ option_trace cmd0\<rparr>) =
     (Inr (), \<lparr>files = [''out.ini'' \<mapsto> Raw_file ''flash image''],
        trace = [Verbose ''SubCommand: dump'', Verbose ''SubCmd: Dump'', Verbose ''Option: device'',
          Verbose '' d'', Verbose '' 8'', Verbose ''Option: output: out.ini'']\<rparr>)"
    by (simp add: fixture_defs flash_dump_def option_trace_def comp_defs)
  with flash_takes_precedence[OF h, of world0] g show ?thesis by simp
qed

subsection \<open>C10: the queries come before the write\<close>

text \<open>
  C10: in the events \<^verbatim>\<open>config_dump\<close> adds, no query follows the write of the
  output file. So when a mandatory query throws, \<^verbatim>\<open>write_ini\<close> has not been
  called and every file is as it was.
\<close>

theorem queries_precede_write:
  "(\<exists>evs. trace (snd (config_dump env dev out w)) = trace w @ evs \<and> queries_before_write evs)
   \<and> (first_failure (mandatory_outcomes dev) \<noteq> None \<longrightarrow>
        files (snd (config_dump env dev out w)) = files w
        \<and> (\<exists>evs. trace (snd (config_dump env dev out w)) = trace w @ evs \<and> \<not> list_ex is_write evs))"
proof -
  obtain r s where run: "config_dump_child dev ([], w) = (r, s)"
    by (cases "config_dump_child dev ([], w)")
  from child_quiet[OF run] obtain evs where
    quiet: "files (snd s) = files w" "trace (snd s) = trace w @ evs" "\<not> list_ex is_write evs"
    by blast
  have order: "\<exists>evs. trace (snd (config_dump env dev out w)) = trace w @ evs \<and> queries_before_write evs"
  proof (cases r)
    case (Inl e)
    with run have "config_dump env dev out w = (Inl e, snd s)"
      by (simp add: config_dump_child_throws)
    moreover have "queries_before_write (evs @ [])"
      using no_write_queries_before_write[OF quiet(3), of "[]"] by simp
    ultimately show ?thesis using quiet(2) by auto
  next
    case (Inr u)
    with run have run': "config_dump_child dev ([], w) = (Inr (), s)" by simp
    show ?thesis
    proof (cases "writable env out")
      case True
      have "queries_before_write
              (evs @ [Write_ini out, Cout (''config has been dumped to '' @ out @ endl)])"
        using no_write_queries_before_write[OF quiet(3)] by simp
      with config_dump_child_written[OF run' True] quiet(2) show ?thesis by simp
    next
      case False
      have "queries_before_write (evs @ [Write_ini out])"
        using no_write_queries_before_write[OF quiet(3)] by simp
      with config_dump_child_unwritable[OF run' False] quiet(2) show ?thesis by simp
    qed
  qed
  have atomic: "files (snd (config_dump env dev out w)) = files w
        \<and> (\<exists>evs. trace (snd (config_dump env dev out w)) = trace w @ evs \<and> \<not> list_ex is_write evs)"
    if "first_failure (mandatory_outcomes dev) \<noteq> None"
  proof -
    from that obtain e where "first_failure (mandatory_outcomes dev) = Some e" by blast
    from child_mandatory_failure[OF this, of w] run quiet show ?thesis
      by (auto simp add: config_dump_child_throws)
  qed
  from order atomic show ?thesis by blast
qed


text \<open>The third mandatory query throws while the output file exists: it is kept.\<close>

theorem queries_precede_write_witness:
  "first_failure (mandatory_outcomes (dev0\<lparr>query_config_xclbin_change := unanswerable\<rparr>)) \<noteq> None
   \<and> files (snd (config_dump (env_of dev0 flasher_invalid)
        (dev0\<lparr>query_config_xclbin_change := unanswerable\<rparr>) ''out.ini'' world1)) = files world1
   \<and> (\<exists>evs. trace (snd (config_dump (env_of dev0 flasher_invalid)
        (dev0\<lparr>query_config_xclbin_change := unanswerable\<rparr>) ''out.ini'' world1)) = trace world1 @ evs
         \<and> queries_before_write evs)"
proof -
  have h: "first_failure (mandatory_outcomes (dev0\<lparr>query_config_xclbin_change := unanswerable\<rparr>)) \<noteq> None"
    by (simp add: fixture_defs mandatory_outcomes_def)
  show ?thesis
    using h queries_precede_write[of "env_of dev0 flasher_invalid"
        "dev0\<lparr>query_config_xclbin_change := unanswerable\<rparr>" "''out.ini''" world1]
    by blast
qed

end
